theory Spec2Isabelle
  imports Main "HOL-Library.Sublist"
begin

section \<open>The session bridge of \<^verbatim>\<open>src/app/providers/SupabaseProvider.tsx\<close>\<close>

text \<open>
  The provider keeps two pieces of React state, \<^verbatim>\<open>user\<close> and \<^verbatim>\<open>loading\<close>, and forwards
  four operations to the ambient \<^verbatim>\<open>supabase\<close> client. The client is external, so it is a
  parameter of the model: a record of operations over an opaque service state \<open>'w\<close>. An
  awaited call either resolves with a value (\<open>Inr\<close>) or rejects, that is, throws at the
  \<^verbatim>\<open>await\<close> (\<open>Inl\<close>). Every external call and every \<^verbatim>\<open>console.error\<close> is appended to a
  trace, so that "was never invoked" and "was logged" are statements about the model.
\<close>

subsection \<open>Values\<close>

text \<open>
  Error values. The provider reads one property of an error, \<^verbatim>\<open>message\<close>, and guards the
  read with \<^verbatim>\<open>?.\<close>, so the property may be missing. The literals the provider builds
  itself, \<^verbatim>\<open>{ message: 'EMAIL_NOT_FOUND' }\<close>, have a message and no name.
\<close>

datatype js_error = JsError (name: "string option") (message: "string option")

datatype user = User (user_id: string) (user_email: string)

text \<open>A session object; \<^verbatim>\<open>session?.user\<close> may be missing.\<close>

datatype session = Session (session_user: "user option")

text \<open>The row selected by \<^verbatim>\<open>.select('id')\<close> and the \<^verbatim>\<open>{ data, error }\<close> answer of the query.\<close>

datatype profile_row = ProfileRow (row_id: string)

datatype query_response =
  QueryResponse (data: "profile_row option") (query_error: "js_error option")

text \<open>The object returned by \<^verbatim>\<open>signIn\<close>: \<^verbatim>\<open>{ error, emailExists }\<close>; \<open>None\<close> is \<^verbatim>\<open>null\<close>.\<close>

record sign_in_result =
  error :: "js_error option"
  emailExists :: bool

text \<open>The object returned by \<^verbatim>\<open>signUp\<close>: \<^verbatim>\<open>{ error }\<close>.\<close>

datatype sign_up_result = SignUpResult (signUp_error: "js_error option")

subsection \<open>The external client and the trace\<close>

datatype event =
    GetSession
  | OnAuthStateChange
  | Unsubscribe
  | ResetPasswordForEmail string string
  | SignInWithPassword string string
  | SignUp string string string "string option"
  | SignOut
  | SelectSingle string string string string
  | ConsoleError string js_error

text \<open>
  \<open>from_select_eq_single table columns column v\<close> stands for the chain
  \<^verbatim>\<open>supabase.from(table).select(columns).eq(column, v).single()\<close>.
\<close>

record 'w client =
  auth_getSession :: "'w \<Rightarrow> (js_error + session option) \<times> 'w"
  auth_resetPasswordForEmail :: "string \<Rightarrow> string \<Rightarrow> 'w \<Rightarrow> (js_error + js_error option) \<times> 'w"
  auth_signInWithPassword :: "string \<Rightarrow> string \<Rightarrow> 'w \<Rightarrow> (js_error + js_error option) \<times> 'w"
  auth_signUp ::
    "string \<Rightarrow> string \<Rightarrow> string \<Rightarrow> string option \<Rightarrow> 'w \<Rightarrow> (js_error + js_error option) \<times> 'w"
  auth_signOut :: "'w \<Rightarrow> (js_error + unit) \<times> 'w"
  from_select_eq_single ::
    "string \<Rightarrow> string \<Rightarrow> string \<Rightarrow> string \<Rightarrow> 'w \<Rightarrow> (js_error + query_response) \<times> 'w"

text \<open>
  The provider instance: its two \<^verbatim>\<open>useState\<close> cells, whether its subscription is
  registered, the \<^verbatim>\<open>getSession\<close> promises that have not settled yet (oldest first), the
  state of the external service, and the trace. A cell is the state React holds for the
  component, the value the next render will read. It is not what consumers see: they read
  the context value built by the last render (\<open>provider\<close> and \<open>render\<close> below).
\<close>

record 'w bridge =
  user :: "user option"
  loading :: bool
  subscribed :: bool
  pending :: "(js_error + session option) list"
  world :: 'w
  trace :: "event list"

text \<open>\<^verbatim>\<open>useState<User | null>(null)\<close> and \<^verbatim>\<open>useState(true)\<close>.\<close>

definition initial :: "'w \<Rightarrow> 'w bridge" where
  "initial w =
     \<lparr>user = None, loading = True, subscribed = False, pending = [], world = w, trace = []\<rparr>"

text \<open>
  The setters replace the held state and schedule a re-render; they do not run it. The
  re-render is a step of its own (\<open>render\<close>).
\<close>

definition setUser :: "user option \<Rightarrow> 'w bridge \<Rightarrow> 'w bridge" where
  "setUser u b = b\<lparr>user := u\<rparr>"

definition setLoading :: "bool \<Rightarrow> 'w bridge \<Rightarrow> 'w bridge" where
  "setLoading l b = b\<lparr>loading := l\<rparr>"

definition emit :: "event \<Rightarrow> 'w bridge \<Rightarrow> 'w bridge" where
  "emit e b = b\<lparr>trace := trace b @ [e]\<rparr>"

definition console_error :: "string \<Rightarrow> js_error \<Rightarrow> 'w bridge \<Rightarrow> 'w bridge" where
  "console_error label e b = emit (ConsoleError label e) b"

text \<open>An awaited call of the client: it is recorded, and the service state moves on.\<close>

definition perform :: "event \<Rightarrow> ('w \<Rightarrow> 'r \<times> 'w) \<Rightarrow> 'w bridge \<Rightarrow> 'r \<times> 'w bridge" where
  "perform e op b = (case op (world b) of (r, w') \<Rightarrow> (r, emit e (b\<lparr>world := w'\<rparr>)))"

text \<open>\<^verbatim>\<open>try { body } catch (error) { handler }\<close> around an async body.\<close>

definition try_catch ::
  "('w bridge \<Rightarrow> (js_error + 'a) \<times> 'w bridge) \<Rightarrow>
   (js_error \<Rightarrow> 'w bridge \<Rightarrow> (js_error + 'a) \<times> 'w bridge) \<Rightarrow>
   'w bridge \<Rightarrow> (js_error + 'a) \<times> 'w bridge" where
  "try_catch body handler b =
     (case body b of
        (Inl thrown, b') \<Rightarrow> handler thrown b'
      | (Inr r, b') \<Rightarrow> (Inr r, b'))"

subsection \<open>The effect: snapshot fetch and subscription\<close>

text \<open>\<^verbatim>\<open>session?.user || null\<close>\<close>

definition session_user_or_null :: "session option \<Rightarrow> user option" where
  "session_user_or_null s = (case s of None \<Rightarrow> None | Some s' \<Rightarrow> session_user s')"

text \<open>
  \<^verbatim>\<open>checkUser\<close> up to its \<^verbatim>\<open>await\<close>: the call is made and its promise is pending.
\<close>

definition checkUser_start :: "'w client \<Rightarrow> 'w bridge \<Rightarrow> 'w bridge" where
  "checkUser_start c b =
     (case perform GetSession (auth_getSession c) b of
        (outcome, b') \<Rightarrow> b'\<lparr>pending := pending b' @ [outcome]\<rparr>)"

text \<open>
  \<^verbatim>\<open>checkUser\<close> after its \<^verbatim>\<open>await\<close>: the \<^verbatim>\<open>try\<close> branch, the \<^verbatim>\<open>catch\<close> branch, then
  \<^verbatim>\<open>finally\<close>.
\<close>

definition checkUser_resume :: "js_error + session option \<Rightarrow> 'w bridge \<Rightarrow> 'w bridge" where
  "checkUser_resume outcome b =
     setLoading False
       (case outcome of
          Inr s \<Rightarrow> setUser (session_user_or_null s) b
        | Inl thrown \<Rightarrow> console_error ''Error checking auth session:'' thrown b)"

text \<open>The callback given to \<^verbatim>\<open>onAuthStateChange\<close>; it has no \<^verbatim>\<open>await\<close>.\<close>

definition onAuthStateChange_callback :: "session option \<Rightarrow> 'w bridge \<Rightarrow> 'w bridge" where
  "onAuthStateChange_callback s b = setLoading False (setUser (session_user_or_null s) b)"

text \<open>The body of \<^verbatim>\<open>useEffect\<close> and the cleanup it returns.\<close>

definition mount :: "'w client \<Rightarrow> 'w bridge \<Rightarrow> 'w bridge" where
  "mount c b = (emit OnAuthStateChange (checkUser_start c b))\<lparr>subscribed := True\<rparr>"

definition unmount :: "'w bridge \<Rightarrow> 'w bridge" where
  "unmount b = (emit Unsubscribe b)\<lparr>subscribed := False\<rparr>"

subsection \<open>The four operations\<close>

definition checkEmailExists_try ::
  "'w client \<Rightarrow> string \<Rightarrow> 'w bridge \<Rightarrow> (js_error + bool) \<times> 'w bridge" where
  "checkEmailExists_try c email b =
     (case perform (SelectSingle ''default_profiles'' ''id'' ''email'' email)
             (from_select_eq_single c ''default_profiles'' ''id'' ''email'' email) b of
        (Inl thrown, b1) \<Rightarrow> (Inl thrown, b1)
      | (Inr response, b1) \<Rightarrow>
          (case query_error response of
             Some e \<Rightarrow> (Inr False, console_error ''Erro ao verificar email:'' e b1)
           | None \<Rightarrow> (Inr (data response \<noteq> None), b1)))"

definition checkEmailExists ::
  "'w client \<Rightarrow> string \<Rightarrow> 'w bridge \<Rightarrow> (js_error + bool) \<times> 'w bridge" where
  "checkEmailExists c email =
     try_catch (checkEmailExists_try c email)
       (\<lambda>thrown b. (Inr False, console_error ''Erro ao verificar email:'' thrown b))"

text \<open>\<^verbatim>\<open>String.prototype.includes\<close>: the needle occurs as a contiguous run.\<close>

fun string_includes :: "string \<Rightarrow> string \<Rightarrow> bool" where
  "string_includes [] needle = (needle = [])"
| "string_includes (c # cs) needle = (prefix needle (c # cs) \<or> string_includes cs needle)"

text \<open>\<^verbatim>\<open>resetError?.message?.includes('User not found')\<close>, read as a condition.\<close>

definition user_not_found :: "js_error option \<Rightarrow> bool" where
  "user_not_found resetError =
     (case resetError of
        None \<Rightarrow> False
      | Some e \<Rightarrow> (case message e of None \<Rightarrow> False | Some m \<Rightarrow> string_includes m ''User not found''))"

text \<open>
  The \<^verbatim>\<open>try\<close> block of \<^verbatim>\<open>signIn\<close>. \<open>origin\<close> is \<^verbatim>\<open>window.location.origin\<close>.
\<close>

definition signIn_try ::
  "'w client \<Rightarrow> string \<Rightarrow> string \<Rightarrow> string \<Rightarrow> 'w bridge \<Rightarrow>
   (js_error + sign_in_result) \<times> 'w bridge" where
  "signIn_try c origin email password b =
     (case perform (ResetPasswordForEmail email (origin @ ''/auth/callback''))
             (auth_resetPasswordForEmail c email (origin @ ''/auth/callback'')) b of
        (Inl thrown, b1) \<Rightarrow> (Inl thrown, b1)
      | (Inr resetError, b1) \<Rightarrow>
          if user_not_found resetError
          then (Inr \<lparr>error = Some (JsError None (Some ''EMAIL_NOT_FOUND'')),
                     emailExists = False\<rparr>, b1)
          else
            (case perform (SignInWithPassword email password)
                    (auth_signInWithPassword c email password) b1 of
               (Inl thrown, b2) \<Rightarrow> (Inl thrown, b2)
             | (Inr signInError, b2) \<Rightarrow>
                 if signInError \<noteq> None
                 then (Inr \<lparr>error = Some (JsError None (Some ''INVALID_PASSWORD'')),
                            emailExists = True\<rparr>, b2)
                 else (Inr \<lparr>error = None, emailExists = True\<rparr>, b2)))"

definition signIn ::
  "'w client \<Rightarrow> string \<Rightarrow> string \<Rightarrow> string \<Rightarrow> 'w bridge \<Rightarrow>
   (js_error + sign_in_result) \<times> 'w bridge" where
  "signIn c origin email password =
     try_catch (signIn_try c origin email password)
       (\<lambda>thrown b. (Inr \<lparr>error = Some thrown, emailExists = False\<rparr>,
                     console_error ''Erro no processo de login:'' thrown b))"

definition signUp_try ::
  "'w client \<Rightarrow> string \<Rightarrow> string \<Rightarrow> string \<Rightarrow> string option \<Rightarrow> 'w bridge \<Rightarrow>
   (js_error + sign_up_result) \<times> 'w bridge" where
  "signUp_try c email password name' company b =
     (case perform (SignUp email password name' company)
             (auth_signUp c email password name' company) b of
        (Inl thrown, b1) \<Rightarrow> (Inl thrown, b1)
      | (Inr signUpError, b1) \<Rightarrow>
          (case signUpError of
             Some e \<Rightarrow> (Inr (SignUpResult (Some e)), b1)
           | None \<Rightarrow> (Inr (SignUpResult None), b1)))"

definition signUp ::
  "'w client \<Rightarrow> string \<Rightarrow> string \<Rightarrow> string \<Rightarrow> string option \<Rightarrow> 'w bridge \<Rightarrow>
   (js_error + sign_up_result) \<times> 'w bridge" where
  "signUp c email password name' company =
     try_catch (signUp_try c email password name' company)
       (\<lambda>thrown b. (Inr (SignUpResult (Some thrown)), b))"

text \<open>\<^verbatim>\<open>signOut\<close> has no \<^verbatim>\<open>try\<close>: a rejection of the awaited call is its own rejection.\<close>

definition signOut :: "'w client \<Rightarrow> 'w bridge \<Rightarrow> (js_error + unit) \<times> 'w bridge" where
  "signOut c b =
     (case perform SignOut (auth_signOut c) b of
        (Inl thrown, b1) \<Rightarrow> (Inl thrown, b1)
      | (Inr _, b1) \<Rightarrow> (Inr (), b1))"

subsection \<open>The life of one provider instance\<close>

text \<open>
  What can happen to a mounted provider, one thing at a time on the single event loop:
  the effect runs, a pending snapshot promise settles, the client delivers an
  auth-state change, the effect is cleaned up, or a consumer calls an operation.
\<close>

datatype action =
    Activate
  | SnapshotSettles
  | SubscriptionEvent "session option"
  | Deactivate
  | DoSignIn string string
  | DoSignUp string string string "string option"
  | DoSignOut
  | DoCheckEmailExists string

fun step :: "'w client \<Rightarrow> string \<Rightarrow> action \<Rightarrow> 'w bridge \<Rightarrow> 'w bridge" where
  "step c origin Activate b = mount c b"
| "step c origin SnapshotSettles b =
     (case pending b of
        [] \<Rightarrow> b
      | outcome # rest \<Rightarrow> checkUser_resume outcome (b\<lparr>pending := rest\<rparr>))"
| "step c origin (SubscriptionEvent s) b =
     (if subscribed b then onAuthStateChange_callback s b else b)"
| "step c origin Deactivate b = (if subscribed b then unmount b else b)"
| "step c origin (DoSignIn email password) b = snd (signIn c origin email password b)"
| "step c origin (DoSignUp email password name' company) b =
     snd (signUp c email password name' company b)"
| "step c origin DoSignOut b = snd (signOut c b)"
| "step c origin (DoCheckEmailExists email) b = snd (checkEmailExists c email b)"

text \<open>An action resolves when it completes the snapshot fetch or delivers an event.\<close>

fun resolves :: "action \<Rightarrow> 'w bridge \<Rightarrow> bool" where
  "resolves SnapshotSettles b = (pending b \<noteq> [])"
| "resolves (SubscriptionEvent s) b = subscribed b"
| "resolves a b = False"

fun run :: "'w client \<Rightarrow> string \<Rightarrow> action list \<Rightarrow> 'w bridge \<Rightarrow> 'w bridge" where
  "run c origin [] b = b"
| "run c origin (a # as) b = run c origin as (step c origin a b)"

text \<open>Whether some action of the run resolved.\<close>

fun resolved :: "'w client \<Rightarrow> string \<Rightarrow> action list \<Rightarrow> 'w bridge \<Rightarrow> bool" where
  "resolved c origin [] b = False"
| "resolved c origin (a # as) b = (resolves a b \<or> resolved c origin as (step c origin a b))"

text \<open>The value of \<^verbatim>\<open>loading\<close> after each action of the run.\<close>

fun loading_history :: "'w client \<Rightarrow> string \<Rightarrow> action list \<Rightarrow> 'w bridge \<Rightarrow> bool list" where
  "loading_history c origin [] b = []"
| "loading_history c origin (a # as) b =
     loading (step c origin a b) # loading_history c origin as (step c origin a b)"

text \<open>
  How often a sequence of flag values, starting from \<open>prev\<close>, goes from true to false,
  and how often from false to true.
\<close>

fun falls :: "bool \<Rightarrow> bool list \<Rightarrow> nat" where
  "falls prev [] = 0"
| "falls prev (x # xs) = (if prev \<and> \<not> x then 1 else 0) + falls x xs"

fun rises :: "bool \<Rightarrow> bool list \<Rightarrow> nat" where
  "rises prev [] = 0"
| "rises prev (x # xs) = (if \<not> prev \<and> x then 1 else 0) + rises x xs"

subsection \<open>What consumers see\<close>









subsection \<open>An in-memory service\<close>

text \<open>
  A small stand-in for the external service, on which the provider can be run: accounts
  are pairs of email and password, the profile table is a list of emails, and an
  offline service rejects every call.
\<close>

record fake_service =
  accounts :: "(string \<times> string) list"
  profiles :: "string list"
  offline :: bool
  current :: "user option"

definition network_error :: js_error where
  "network_error = JsError (Some ''TypeError'') (Some ''Failed to fetch'')"

definition fake_client :: "fake_service client" where
  "fake_client =
     \<lparr>auth_getSession = (\<lambda>w.
        if offline w then (Inl network_error, w)
        else (Inr (case current w of None \<Rightarrow> None | Some u \<Rightarrow> Some (Session (Some u))), w)),
      auth_resetPasswordForEmail = (\<lambda>email redirect w.
        if offline w then (Inl network_error, w)
        else if email \<in> set (map fst (accounts w)) then (Inr None, w)
        else (Inr (Some (JsError (Some ''AuthApiError'') (Some ''User not found''))), w)),
      auth_signInWithPassword = (\<lambda>email password w.
        if offline w then (Inl network_error, w)
        else if (email, password) \<in> set (accounts w)
          then (Inr None, w\<lparr>current := Some (User email email)\<rparr>)
        else (Inr (Some (JsError (Some ''AuthApiError'') (Some ''Invalid login credentials''))), w)),
      auth_signUp = (\<lambda>email password name' company w.
        if offline w then (Inl network_error, w)
        else if email \<in> set (map fst (accounts w))
          then (Inr (Some (JsError (Some ''AuthApiError'') (Some ''User already registered''))), w)
        else (Inr None, w\<lparr>accounts := (email, password) # accounts w\<rparr>)),
      auth_signOut = (\<lambda>w.
        if offline w then (Inl network_error, w) else (Inr (), w\<lparr>current := None\<rparr>)),
      from_select_eq_single = (\<lambda>table columns column v w.
        if offline w then (Inl network_error, w)
        else (case filter (\<lambda>e. e = v) (profiles w) of
                [e] \<Rightarrow> (Inr (QueryResponse (Some (ProfileRow e)) None), w)
              | _ \<Rightarrow> (Inr (QueryResponse None
                             (Some (JsError (Some ''PostgrestError'')
                                (Some ''JSON object requested, multiple (or no) rows returned'')))),
                      w)))\<rparr>"

definition demo_service :: fake_service where
  "demo_service =
     \<lparr>accounts = [(''ana@example.com'', ''s3gredo'')],
      profiles = [''ana@example.com''],
      offline = False,
      current = None\<rparr>"

section \<open>Properties\<close>

subsection \<open>Auxiliary facts\<close>

text \<open>The substring test is the library's contiguous-sublist relation.\<close>

lemma string_includes_sublist: "string_includes s needle = sublist needle s"
  by (induction s) (auto simp: sublist_Cons_right)

lemma user_not_found_iff:
  "user_not_found r \<longleftrightarrow> (\<exists>e m. r = Some e \<and> message e = Some m \<and> sublist ''User not found'' m)"
  by (auto simp: user_not_found_def string_includes_sublist split: option.splits)

subsection \<open>\<^verbatim>\<open>signIn\<close>\<close>

text \<open>
  Claim C1. When the password-reset probe resolves with an error whose message contains
  \<^verbatim>\<open>User not found\<close>, \<^verbatim>\<open>signIn\<close> returns \<^verbatim>\<open>{ error: { message: 'EMAIL_NOT_FOUND' }, emailExists: false }\<close>,
  the only thing it did was the probe, and no \<^verbatim>\<open>signInWithPassword\<close> call (for any
  credentials) is among the calls it made.
\<close>

theorem signIn_email_not_found:
  assumes probe: "auth_resetPasswordForEmail c email (origin @ ''/auth/callback'') (world b)
                    = (Inr (Some e), w1)"
    and msg: "message e = Some m"
    and found: "string_includes m ''User not found''"
  shows "signIn c origin email password b =
           (Inr \<lparr>error = Some (JsError None (Some ''EMAIL_NOT_FOUND'')), emailExists = False\<rparr>,
            b\<lparr>world := w1,
              trace := trace b @ [ResetPasswordForEmail email (origin @ ''/auth/callback'')]\<rparr>)
         \<and> (\<forall>e' p'. SignInWithPassword e' p'
               \<notin> set (drop (length (trace b))
                         (trace (snd (signIn c origin email password b)))))"
proof -
  have nf: "user_not_found (Some e)"
    using msg found by (simp add: user_not_found_def)
  have "signIn c origin email password b =
           (Inr \<lparr>error = Some (JsError None (Some ''EMAIL_NOT_FOUND'')), emailExists = False\<rparr>,
            b\<lparr>world := w1,
              trace := trace b @ [ResetPasswordForEmail email (origin @ ''/auth/callback'')]\<rparr>)"
    by (simp add: signIn_def try_catch_def signIn_try_def perform_def emit_def probe nf)
  then show ?thesis by simp
qed

theorem signIn_email_not_found_witness:
  "auth_resetPasswordForEmail fake_client ''bob@example.com''
       (''https://app.example'' @ ''/auth/callback'') (world (initial demo_service))
     = (Inr (Some (JsError (Some ''AuthApiError'') (Some ''User not found''))), demo_service)
   \<and> string_includes ''User not found'' ''User not found''
   \<and> fst (signIn fake_client ''https://app.example'' ''bob@example.com'' ''pw''
             (initial demo_service))
     = Inr \<lparr>error = Some (JsError None (Some ''EMAIL_NOT_FOUND'')), emailExists = False\<rparr>
   \<and> trace (snd (signIn fake_client ''https://app.example'' ''bob@example.com'' ''pw''
             (initial demo_service)))
     = [ResetPasswordForEmail ''bob@example.com'' ''https://app.example/auth/callback'']"
proof -
  have probe: "auth_resetPasswordForEmail fake_client ''bob@example.com''
       (''https://app.example'' @ ''/auth/callback'') (world (initial demo_service))
     = (Inr (Some (JsError (Some ''AuthApiError'') (Some ''User not found''))), demo_service)"
    by (simp add: fake_client_def demo_service_def initial_def)
  have msg: "message (JsError (Some ''AuthApiError'') (Some ''User not found''))
               = Some ''User not found''"
    by simp
  have inc: "string_includes ''User not found'' ''User not found''"
    by simp
  show ?thesis
    using signIn_email_not_found [OF probe msg inc, where password = "''pw''"] probe inc
    by (simp add: initial_def)
qed

text \<open>
  Claim C2. When the probe resolves without the not-found signal (the email is deemed to
  exist) and \<^verbatim>\<open>signInWithPassword\<close> resolves with an error value, whatever that error is,
  \<^verbatim>\<open>signIn\<close> returns \<^verbatim>\<open>{ error: { message: 'INVALID_PASSWORD' }, emailExists: true }\<close>.
\<close>

theorem signIn_invalid_password:
  assumes probe: "auth_resetPasswordForEmail c email (origin @ ''/auth/callback'') (world b)
                    = (Inr resetError, w1)"
    and exists: "\<not> user_not_found resetError"
    and attempt: "auth_signInWithPassword c email password w1 = (Inr (Some signInError), w2)"
  shows "signIn c origin email password b =
           (Inr \<lparr>error = Some (JsError None (Some ''INVALID_PASSWORD'')), emailExists = True\<rparr>,
            b\<lparr>world := w2,
              trace := trace b @ [ResetPasswordForEmail email (origin @ ''/auth/callback''),
                                  SignInWithPassword email password]\<rparr>)"
  by (simp add: signIn_def try_catch_def signIn_try_def perform_def emit_def probe exists attempt)

theorem signIn_invalid_password_witness:
  "\<not> user_not_found None
   \<and> auth_signInWithPassword fake_client ''ana@example.com'' ''wrong'' demo_service
       = (Inr (Some (JsError (Some ''AuthApiError'') (Some ''Invalid login credentials''))),
          demo_service)
   \<and> fst (signIn fake_client ''https://app.example'' ''ana@example.com'' ''wrong''
             (initial demo_service))
     = Inr \<lparr>error = Some (JsError None (Some ''INVALID_PASSWORD'')), emailExists = True\<rparr>"
proof -
  have probe: "auth_resetPasswordForEmail fake_client ''ana@example.com''
       (''https://app.example'' @ ''/auth/callback'') (world (initial demo_service))
     = (Inr None, demo_service)"
    by (simp add: fake_client_def demo_service_def initial_def)
  have exists: "\<not> user_not_found None"
    by (simp add: user_not_found_def)
  have attempt: "auth_signInWithPassword fake_client ''ana@example.com'' ''wrong'' demo_service
       = (Inr (Some (JsError (Some ''AuthApiError'') (Some ''Invalid login credentials''))),
          demo_service)"
    by (simp add: fake_client_def demo_service_def)
  show ?thesis
    using signIn_invalid_password [OF probe exists attempt] exists attempt
    by simp
qed

text \<open>
  Claim C5. When the email is deemed to exist and \<^verbatim>\<open>signInWithPassword\<close> resolves with no
  error, \<^verbatim>\<open>signIn\<close> returns \<^verbatim>\<open>{ error: null, emailExists: true }\<close> and leaves \<^verbatim>\<open>user\<close> and
  \<^verbatim>\<open>loading\<close> as they were; the identity arrives when the subscription delivers it.
\<close>

theorem signIn_success:
  assumes probe: "auth_resetPasswordForEmail c email (origin @ ''/auth/callback'') (world b)
                    = (Inr resetError, w1)"
    and exists: "\<not> user_not_found resetError"
    and attempt: "auth_signInWithPassword c email password w1 = (Inr None, w2)"
  shows "fst (signIn c origin email password b) = Inr \<lparr>error = None, emailExists = True\<rparr>
         \<and> user (snd (signIn c origin email password b)) = user b
         \<and> loading (snd (signIn c origin email password b)) = loading b
         \<and> (subscribed b \<longrightarrow>
              user (step c origin (SubscriptionEvent (Some (Session (Some u))))
                      (snd (signIn c origin email password b))) = Some u)"
  by (simp add: signIn_def try_catch_def signIn_try_def perform_def emit_def probe exists attempt
      onAuthStateChange_callback_def setUser_def setLoading_def session_user_or_null_def)

theorem signIn_success_witness:
  "\<not> user_not_found None
   \<and> subscribed (mount fake_client (initial demo_service))
   \<and> fst (signIn fake_client ''https://app.example'' ''ana@example.com'' ''s3gredo''
             (mount fake_client (initial demo_service)))
     = Inr \<lparr>error = None, emailExists = True\<rparr>
   \<and> user (snd (signIn fake_client ''https://app.example'' ''ana@example.com'' ''s3gredo''
             (mount fake_client (initial demo_service)))) = None
   \<and> loading (snd (signIn fake_client ''https://app.example'' ''ana@example.com'' ''s3gredo''
             (mount fake_client (initial demo_service))))
   \<and> user (step fake_client ''https://app.example''
             (SubscriptionEvent (Some (Session (Some (User ''1'' ''ana@example.com'')))))
             (snd (signIn fake_client ''https://app.example'' ''ana@example.com'' ''s3gredo''
                (mount fake_client (initial demo_service)))))
     = Some (User ''1'' ''ana@example.com'')"
  (is "_ \<and> _ \<and> fst (signIn ?c ?o ?e ?p ?b) = _ \<and> _")
proof -
  have b0: "world ?b = demo_service" "subscribed ?b" "user ?b = None" "loading ?b"
    by (simp_all add: mount_def checkUser_start_def perform_def emit_def fake_client_def
        demo_service_def initial_def)
  have probe: "auth_resetPasswordForEmail ?c ?e (?o @ ''/auth/callback'') (world ?b)
     = (Inr None, demo_service)"
    unfolding b0 by (simp add: fake_client_def demo_service_def)
  have exists: "\<not> user_not_found None"
    by (simp add: user_not_found_def)
  have attempt: "auth_signInWithPassword ?c ?e ?p demo_service
       = (Inr None, demo_service\<lparr>current := Some (User ''ana@example.com'' ''ana@example.com'')\<rparr>)"
    by (simp add: fake_client_def demo_service_def)
  show ?thesis
    using signIn_success [OF probe exists attempt, where u = "User ''1'' ''ana@example.com''"]
          exists b0
    by simp
qed

text \<open>
  Claim C10. When a step of \<^verbatim>\<open>signIn\<close> throws (the probe rejects, or the probe resolves and
  the sign-in call rejects), \<^verbatim>\<open>signIn\<close> logs the thrown value and returns
  \<^verbatim>\<open>{ error, emailExists: false }\<close> with \<^verbatim>\<open>error\<close> the thrown value itself. In the second
  case the probe had not signalled an unknown email, and \<^verbatim>\<open>emailExists\<close> is false all the same.
\<close>

theorem signIn_thrown_value_returned:
  "(\<forall>t b1.
      signIn_try c origin email password b = (Inl t, b1)
      \<longrightarrow> signIn c origin email password b
            = (Inr \<lparr>error = Some t, emailExists = False\<rparr>,
               console_error ''Erro no processo de login:'' t b1))
   \<and> (\<forall>t w1.
      auth_resetPasswordForEmail c email (origin @ ''/auth/callback'') (world b) = (Inl t, w1)
      \<longrightarrow> signIn c origin email password b
            = (Inr \<lparr>error = Some t, emailExists = False\<rparr>,
               b\<lparr>world := w1,
                 trace := trace b @ [ResetPasswordForEmail email (origin @ ''/auth/callback''),
                                     ConsoleError ''Erro no processo de login:'' t]\<rparr>))
   \<and> (\<forall>resetError t w1 w2.
      auth_resetPasswordForEmail c email (origin @ ''/auth/callback'') (world b)
        = (Inr resetError, w1)
      \<and> \<not> user_not_found resetError
      \<and> auth_signInWithPassword c email password w1 = (Inl t, w2)
      \<longrightarrow> signIn c origin email password b
            = (Inr \<lparr>error = Some t, emailExists = False\<rparr>,
               b\<lparr>world := w2,
                 trace := trace b @ [ResetPasswordForEmail email (origin @ ''/auth/callback''),
                                     SignInWithPassword email password,
                                     ConsoleError ''Erro no processo de login:'' t]\<rparr>))"
proof (intro conjI allI impI)
  fix t b1
  assume "signIn_try c origin email password b = (Inl t, b1)"
  then show "signIn c origin email password b
            = (Inr \<lparr>error = Some t, emailExists = False\<rparr>,
               console_error ''Erro no processo de login:'' t b1)"
    by (simp add: signIn_def try_catch_def)
next
  fix t w1
  assume "auth_resetPasswordForEmail c email (origin @ ''/auth/callback'') (world b)
            = (Inl t, w1)"
  then show "signIn c origin email password b
            = (Inr \<lparr>error = Some t, emailExists = False\<rparr>,
               b\<lparr>world := w1,
                 trace := trace b @ [ResetPasswordForEmail email (origin @ ''/auth/callback''),
                                     ConsoleError ''Erro no processo de login:'' t]\<rparr>)"
    by (simp add: signIn_def try_catch_def signIn_try_def perform_def emit_def console_error_def)
next
  fix resetError t w1 w2
  assume "auth_resetPasswordForEmail c email (origin @ ''/auth/callback'') (world b)
        = (Inr resetError, w1)
      \<and> \<not> user_not_found resetError
      \<and> auth_signInWithPassword c email password w1 = (Inl t, w2)"
  then show "signIn c origin email password b
            = (Inr \<lparr>error = Some t, emailExists = False\<rparr>,
               b\<lparr>world := w2,
                 trace := trace b @ [ResetPasswordForEmail email (origin @ ''/auth/callback''),
                                     SignInWithPassword email password,
                                     ConsoleError ''Erro no processo de login:'' t]\<rparr>)"
    by (simp add: signIn_def try_catch_def signIn_try_def perform_def emit_def console_error_def)
qed

theorem signIn_thrown_value_returned_witness:
  "signIn fake_client ''https://app.example'' ''ana@example.com'' ''s3gredo''
     (initial (demo_service\<lparr>offline := True\<rparr>))
   = (Inr \<lparr>error = Some network_error, emailExists = False\<rparr>,
      (initial (demo_service\<lparr>offline := True\<rparr>))
        \<lparr>trace := [ResetPasswordForEmail ''ana@example.com'' ''https://app.example/auth/callback'',
                    ConsoleError ''Erro no processo de login:'' network_error]\<rparr>)"
proof -
  have probe: "auth_resetPasswordForEmail fake_client ''ana@example.com''
                 (''https://app.example'' @ ''/auth/callback'')
                 (world (initial (demo_service\<lparr>offline := True\<rparr>)))
               = (Inl network_error, demo_service\<lparr>offline := True\<rparr>)"
    by (simp add: fake_client_def demo_service_def initial_def)
  have "signIn fake_client ''https://app.example'' ''ana@example.com'' ''s3gredo''
          (initial (demo_service\<lparr>offline := True\<rparr>))
        = (Inr \<lparr>error = Some network_error, emailExists = False\<rparr>,
           (initial (demo_service\<lparr>offline := True\<rparr>))
             \<lparr>world := demo_service\<lparr>offline := True\<rparr>,
               trace := trace (initial (demo_service\<lparr>offline := True\<rparr>))
                 @ [ResetPasswordForEmail ''ana@example.com''
                      (''https://app.example'' @ ''/auth/callback''),
                    ConsoleError ''Erro no processo de login:'' network_error]\<rparr>)"
    using signIn_thrown_value_returned
            [where c = fake_client and origin = "''https://app.example''"
               and email = "''ana@example.com''" and password = "''s3gredo''"
               and b = "initial (demo_service\<lparr>offline := True\<rparr>)"]
          probe
    by blast
  then show ?thesis by (simp add: initial_def)
qed

subsection \<open>\<^verbatim>\<open>signUp\<close> and the error policy\<close>

text \<open>
  Claim C7. \<^verbatim>\<open>signIn\<close> and \<^verbatim>\<open>signUp\<close> always resolve (they never reject): a value thrown
  inside the \<^verbatim>\<open>try\<close> block of \<^verbatim>\<open>signIn\<close> comes back in the \<^verbatim>\<open>error\<close> field, and \<^verbatim>\<open>signUp\<close>
  returns the error value of the external sign-up unchanged, \<^verbatim>\<open>null\<close> when there is none,
  and the thrown value when the external call rejects.
\<close>

theorem signIn_signUp_return_errors:
  "(\<exists>r b'. signIn c origin email password b = (Inr r, b'))
   \<and> (\<exists>r b'. signUp c email password name' company b = (Inr r, b'))
   \<and> (\<forall>t b1. signIn_try c origin email password b = (Inl t, b1) \<longrightarrow>
         fst (signIn c origin email password b) = Inr \<lparr>error = Some t, emailExists = False\<rparr>)
   \<and> (\<forall>e w1. auth_signUp c email password name' company (world b) = (Inr (Some e), w1) \<longrightarrow>
         fst (signUp c email password name' company b) = Inr (SignUpResult (Some e)))
   \<and> (\<forall>w1. auth_signUp c email password name' company (world b) = (Inr None, w1) \<longrightarrow>
         fst (signUp c email password name' company b) = Inr (SignUpResult None))
   \<and> (\<forall>t w1. auth_signUp c email password name' company (world b) = (Inl t, w1) \<longrightarrow>
         fst (signUp c email password name' company b) = Inr (SignUpResult (Some t)))"
proof (intro conjI allI impI)
  show "\<exists>r b'. signIn c origin email password b = (Inr r, b')"
    by (cases "signIn_try c origin email password b")
       (auto simp: signIn_def try_catch_def split: sum.splits)
next
  show "\<exists>r b'. signUp c email password name' company b = (Inr r, b')"
    by (cases "signUp_try c email password name' company b")
       (auto simp: signUp_def try_catch_def split: sum.splits)
next
  fix t b1
  assume "signIn_try c origin email password b = (Inl t, b1)"
  then show "fst (signIn c origin email password b)
               = Inr \<lparr>error = Some t, emailExists = False\<rparr>"
    by (simp add: signIn_def try_catch_def)
next
  fix e w1
  assume "auth_signUp c email password name' company (world b) = (Inr (Some e), w1)"
  then show "fst (signUp c email password name' company b) = Inr (SignUpResult (Some e))"
    by (simp add: signUp_def try_catch_def signUp_try_def perform_def)
next
  fix w1
  assume "auth_signUp c email password name' company (world b) = (Inr None, w1)"
  then show "fst (signUp c email password name' company b) = Inr (SignUpResult None)"
    by (simp add: signUp_def try_catch_def signUp_try_def perform_def)
next
  fix t w1
  assume "auth_signUp c email password name' company (world b) = (Inl t, w1)"
  then show "fst (signUp c email password name' company b) = Inr (SignUpResult (Some t))"
    by (simp add: signUp_def try_catch_def signUp_try_def perform_def)
qed

theorem signIn_signUp_return_errors_witness:
  "fst (signUp fake_client ''ana@example.com'' ''pw'' ''Ana'' None (initial demo_service))
     = Inr (SignUpResult (Some (JsError (Some ''AuthApiError'') (Some ''User already registered''))))
   \<and> fst (signUp fake_client ''rui@example.com'' ''pw'' ''Rui'' (Some ''Dengun'')
            (initial (demo_service\<lparr>offline := True\<rparr>)))
     = Inr (SignUpResult (Some network_error))
   \<and> fst (signIn fake_client ''https://app.example'' ''ana@example.com'' ''s3gredo''
            (initial (demo_service\<lparr>offline := True\<rparr>)))
     = Inr \<lparr>error = Some network_error, emailExists = False\<rparr>"
proof -
  have up1: "auth_signUp fake_client ''ana@example.com'' ''pw'' ''Ana'' None
               (world (initial demo_service))
             = (Inr (Some (JsError (Some ''AuthApiError'') (Some ''User already registered''))),
                demo_service)"
    by (simp add: fake_client_def demo_service_def initial_def)
  have up2: "auth_signUp fake_client ''rui@example.com'' ''pw'' ''Rui'' (Some ''Dengun'')
               (world (initial (demo_service\<lparr>offline := True\<rparr>)))
             = (Inl network_error, demo_service\<lparr>offline := True\<rparr>)"
    by (simp add: fake_client_def demo_service_def initial_def)
  have in3: "signIn_try fake_client ''https://app.example'' ''ana@example.com'' ''s3gredo''
               (initial (demo_service\<lparr>offline := True\<rparr>))
             = (Inl network_error,
                (initial (demo_service\<lparr>offline := True\<rparr>))
                  \<lparr>trace := [ResetPasswordForEmail ''ana@example.com''
                               ''https://app.example/auth/callback'']\<rparr>)"
    by (simp add: signIn_try_def perform_def emit_def fake_client_def demo_service_def
        initial_def)
  have a: "fst (signUp fake_client ''ana@example.com'' ''pw'' ''Ana'' None (initial demo_service))
     = Inr (SignUpResult (Some (JsError (Some ''AuthApiError'') (Some ''User already registered''))))"
    using signIn_signUp_return_errors
            [where c = fake_client and email = "''ana@example.com''" and password = "''pw''"
               and name' = "''Ana''" and company = None and b = "initial demo_service"]
          up1
    by blast
  have b: "fst (signUp fake_client ''rui@example.com'' ''pw'' ''Rui'' (Some ''Dengun'')
            (initial (demo_service\<lparr>offline := True\<rparr>)))
     = Inr (SignUpResult (Some network_error))"
    using signIn_signUp_return_errors
            [where c = fake_client and email = "''rui@example.com''" and password = "''pw''"
               and name' = "''Rui''" and company = "Some ''Dengun''"
               and b = "initial (demo_service\<lparr>offline := True\<rparr>)"]
          up2
    by blast
  have c: "fst (signIn fake_client ''https://app.example'' ''ana@example.com'' ''s3gredo''
            (initial (demo_service\<lparr>offline := True\<rparr>)))
     = Inr \<lparr>error = Some network_error, emailExists = False\<rparr>"
    using signIn_signUp_return_errors
            [where c = fake_client and origin = "''https://app.example''"
               and email = "''ana@example.com''" and password = "''s3gredo''"
               and b = "initial (demo_service\<lparr>offline := True\<rparr>)"]
          in3
    by blast
  show ?thesis using a b c by simp
qed

subsection \<open>\<^verbatim>\<open>checkEmailExists\<close>\<close>

text \<open>
  Claim C4. \<^verbatim>\<open>checkEmailExists\<close> always resolves. It queries \<^verbatim>\<open>default_profiles\<close> for the
  row whose \<^verbatim>\<open>email\<close> equals the argument, and its answer is true exactly when the query
  resolves with a row and no error. When the query resolves with an error or rejects, the
  error is written to the console and the answer is false.
\<close>

theorem checkEmailExists_true_iff_row_found:
  assumes query: "from_select_eq_single c ''default_profiles'' ''id'' ''email'' email (world b)
                    = (outcome, w1)"
  shows "fst (checkEmailExists c email b)
           = Inr (\<exists>row. outcome = Inr (QueryResponse (Some row) None))
         \<and> snd (checkEmailExists c email b)
           = b\<lparr>world := w1,
               trace := trace b
                 @ SelectSingle ''default_profiles'' ''id'' ''email'' email
                 # (case outcome of
                      Inl thrown \<Rightarrow> [ConsoleError ''Erro ao verificar email:'' thrown]
                    | Inr response \<Rightarrow>
                        (case query_error response of
                           Some e \<Rightarrow> [ConsoleError ''Erro ao verificar email:'' e]
                         | None \<Rightarrow> []))\<rparr>"
proof (cases outcome)
  case (Inl thrown)
  then show ?thesis
    using query
    by (simp add: checkEmailExists_def try_catch_def checkEmailExists_try_def perform_def
        emit_def console_error_def)
next
  case (Inr response)
  obtain d qe where r: "response = QueryResponse d qe"
    by (cases response)
  show ?thesis
  proof (cases qe)
    case None
    then show ?thesis
      using query Inr r
      by (simp add: checkEmailExists_def try_catch_def checkEmailExists_try_def perform_def
          emit_def console_error_def)
  next
    case (Some e)
    then show ?thesis
      using query Inr r
      by (simp add: checkEmailExists_def try_catch_def checkEmailExists_try_def perform_def
          emit_def console_error_def)
  qed
qed

theorem checkEmailExists_true_iff_row_found_witness:
  "checkEmailExists fake_client ''ana@example.com'' (initial demo_service)
     = (Inr True,
        (initial demo_service)
          \<lparr>trace := [SelectSingle ''default_profiles'' ''id'' ''email'' ''ana@example.com'']\<rparr>)"
proof -
  have query: "from_select_eq_single fake_client ''default_profiles'' ''id'' ''email''
                 ''ana@example.com'' (world (initial demo_service))
               = (Inr (QueryResponse (Some (ProfileRow ''ana@example.com'')) None), demo_service)"
    by (simp add: fake_client_def demo_service_def initial_def)
  show ?thesis
    using checkEmailExists_true_iff_row_found [OF query]
    by (simp add: prod_eq_iff initial_def)
qed

subsection \<open>\<^verbatim>\<open>signOut\<close> and the subscription\<close>

text \<open>
  Claim C8. \<^verbatim>\<open>signOut\<close> changes neither \<^verbatim>\<open>user\<close> nor \<^verbatim>\<open>loading\<close>: all it does is the
  external sign-out call, whose outcome is its own.
\<close>

theorem signOut_forwards_only:
  "user (snd (signOut c b)) = user b
   \<and> loading (snd (signOut c b)) = loading b
   \<and> snd (signOut c b) = b\<lparr>world := snd (auth_signOut c (world b)), trace := trace b @ [SignOut]\<rparr>
   \<and> fst (signOut c b) = fst (auth_signOut c (world b))"
  by (cases "auth_signOut c (world b)")
     (auto simp: signOut_def perform_def emit_def split: sum.splits)

theorem signOut_forwards_only_witness:
  "user (snd (signOut fake_client ((initial demo_service)\<lparr>user := Some (User ''1'' ''ana@example.com'')\<rparr>)))
     = Some (User ''1'' ''ana@example.com'')
   \<and> trace (snd (signOut fake_client (initial demo_service))) = [SignOut]"
  using signOut_forwards_only [of fake_client "(initial demo_service)\<lparr>user := Some (User ''1'' ''ana@example.com'')\<rparr>"]
        signOut_forwards_only [of fake_client "initial demo_service"]
  by (simp add: initial_def)











subsection \<open>How the probe is read\<close>

text \<open>
  Claim C9. After the probe has resolved, \<^verbatim>\<open>signIn\<close> stops with the
  \<^verbatim>\<open>EMAIL_NOT_FOUND\<close> result exactly when the probe's error has a message containing
  \<^verbatim>\<open>User not found\<close> as a contiguous substring. For a probe without error, an error
  without message, or any other message, the next thing \<^verbatim>\<open>signIn\<close> does is the external
  sign-in with the given credentials, and when that call resolves the result has
  \<^verbatim>\<open>emailExists: true\<close>.
\<close>

theorem signIn_probe_classification:
  assumes probe: "auth_resetPasswordForEmail c email (origin @ ''/auth/callback'') (world b)
                    = (Inr resetError, w1)"
  shows "if (\<exists>e m. resetError = Some e \<and> message e = Some m \<and> sublist ''User not found'' m)
         then signIn c origin email password b
                = (Inr \<lparr>error = Some (JsError None (Some ''EMAIL_NOT_FOUND'')),
                        emailExists = False\<rparr>,
                   b\<lparr>world := w1,
                     trace := trace b
                       @ [ResetPasswordForEmail email (origin @ ''/auth/callback'')]\<rparr>)
         else take (length (trace b) + 2) (trace (snd (signIn c origin email password b)))
                = trace b @ [ResetPasswordForEmail email (origin @ ''/auth/callback''),
                             SignInWithPassword email password]
              \<and> world (snd (signIn c origin email password b))
                  = snd (auth_signInWithPassword c email password w1)
              \<and> (\<forall>r w2. auth_signInWithPassword c email password w1 = (Inr r, w2) \<longrightarrow>
                    (\<exists>res. fst (signIn c origin email password b) = Inr res \<and> emailExists res))"
proof (cases "user_not_found resetError")
  case True
  then have hit: "\<exists>e m. resetError = Some e \<and> message e = Some m \<and> sublist ''User not found'' m"
    by (simp add: user_not_found_iff)
  have "signIn c origin email password b
                = (Inr \<lparr>error = Some (JsError None (Some ''EMAIL_NOT_FOUND'')),
                        emailExists = False\<rparr>,
                   b\<lparr>world := w1,
                     trace := trace b
                       @ [ResetPasswordForEmail email (origin @ ''/auth/callback'')]\<rparr>)"
    using True
    by (simp add: signIn_def try_catch_def signIn_try_def perform_def emit_def probe)
  then show ?thesis
    unfolding if_P [OF hit] .
next
  case False
  then have miss:
    "\<not> (\<exists>e m. resetError = Some e \<and> message e = Some m \<and> sublist ''User not found'' m)"
    by (simp add: user_not_found_iff)
  obtain out w2 where attempt: "auth_signInWithPassword c email password w1 = (out, w2)"
    by (cases "auth_signInWithPassword c email password w1")
  have "take (length (trace b) + 2) (trace (snd (signIn c origin email password b)))
                = trace b @ [ResetPasswordForEmail email (origin @ ''/auth/callback''),
                             SignInWithPassword email password]
              \<and> world (snd (signIn c origin email password b)) = w2
              \<and> (\<forall>r. out = Inr r \<longrightarrow>
                    (\<exists>res. fst (signIn c origin email password b) = Inr res \<and> emailExists res))"
    using False
    by (cases out)
       (simp_all add: signIn_def try_catch_def signIn_try_def perform_def emit_def
          console_error_def probe attempt)
  then have "take (length (trace b) + 2) (trace (snd (signIn c origin email password b)))
                = trace b @ [ResetPasswordForEmail email (origin @ ''/auth/callback''),
                             SignInWithPassword email password]
              \<and> world (snd (signIn c origin email password b))
                  = snd (auth_signInWithPassword c email password w1)
              \<and> (\<forall>r w2. auth_signInWithPassword c email password w1 = (Inr r, w2) \<longrightarrow>
                    (\<exists>res. fst (signIn c origin email password b) = Inr res \<and> emailExists res))"
    using attempt by simp
  then show ?thesis
    unfolding if_not_P [OF miss] .
qed

theorem signIn_probe_classification_witness:
  "\<not> sublist ''User not found'' ''Email rate limit exceeded''
   \<and> take 2 (trace (snd (signIn
       (fake_client\<lparr>auth_resetPasswordForEmail := (\<lambda>email redirect w.
          (Inr (Some (JsError (Some ''AuthApiError'') (Some ''Email rate limit exceeded''))), w))\<rparr>)
       ''https://app.example'' ''bob@example.com'' ''pw'' (initial demo_service))))
     = [ResetPasswordForEmail ''bob@example.com'' ''https://app.example/auth/callback'',
        SignInWithPassword ''bob@example.com'' ''pw'']
   \<and> (\<exists>res. fst (signIn
       (fake_client\<lparr>auth_resetPasswordForEmail := (\<lambda>email redirect w.
          (Inr (Some (JsError (Some ''AuthApiError'') (Some ''Email rate limit exceeded''))), w))\<rparr>)
       ''https://app.example'' ''bob@example.com'' ''pw'' (initial demo_service))
     = Inr res \<and> emailExists res)"
  (is "_ \<and> take 2 (trace (snd (signIn ?c ?o ?e ?p ?b))) = _ \<and> _")
proof -
  have probe: "auth_resetPasswordForEmail ?c ?e (?o @ ''/auth/callback'') (world ?b)
     = (Inr (Some (JsError (Some ''AuthApiError'') (Some ''Email rate limit exceeded''))),
        demo_service)"
    by (simp add: initial_def)
  have nosub: "\<not> sublist ''User not found'' ''Email rate limit exceeded''"
    by (simp add: string_includes_sublist [symmetric])
  then have miss:
    "\<not> (\<exists>e m. Some (JsError (Some ''AuthApiError'') (Some ''Email rate limit exceeded''))
                        = Some e \<and> message e = Some m \<and> sublist ''User not found'' m)"
    by auto
  have attempt: "auth_signInWithPassword ?c ?e ?p demo_service
     = (Inr (Some (JsError (Some ''AuthApiError'') (Some ''Invalid login credentials''))),
        demo_service)"
    by (simp add: fake_client_def demo_service_def)
  have "take (length (trace ?b) + 2) (trace (snd (signIn ?c ?o ?e ?p ?b)))
            = trace ?b @ [ResetPasswordForEmail ?e (?o @ ''/auth/callback''),
                          SignInWithPassword ?e ?p]
        \<and> world (snd (signIn ?c ?o ?e ?p ?b)) = snd (auth_signInWithPassword ?c ?e ?p demo_service)
        \<and> (\<forall>r w2. auth_signInWithPassword ?c ?e ?p demo_service = (Inr r, w2) \<longrightarrow>
              (\<exists>res. fst (signIn ?c ?o ?e ?p ?b) = Inr res \<and> emailExists res))"
    using signIn_probe_classification [OF probe, where password = ?p]
    unfolding if_not_P [OF miss] .
  then show ?thesis
    using nosub attempt by (simp add: initial_def numeral_2_eq_2)
qed

subsection \<open>The loading flag\<close>

text \<open>
  No operation touches \<^verbatim>\<open>loading\<close>; the two continuations that resolve set it to false.
\<close>

lemma signIn_loading: "loading (snd (signIn c origin email password b)) = loading b"
  by (simp add: signIn_def try_catch_def signIn_try_def perform_def emit_def console_error_def
      split: prod.splits sum.splits)

lemma signUp_loading: "loading (snd (signUp c email password name' company b)) = loading b"
  by (simp add: signUp_def try_catch_def signUp_try_def perform_def emit_def
      split: prod.splits sum.splits option.splits)

lemma signOut_loading: "loading (snd (signOut c b)) = loading b"
  by (simp add: signOut_def perform_def emit_def split: prod.splits sum.splits)

lemma checkEmailExists_loading: "loading (snd (checkEmailExists c email b)) = loading b"
  by (simp add: checkEmailExists_def try_catch_def checkEmailExists_try_def perform_def emit_def
      console_error_def split: prod.splits sum.splits option.splits)

lemma mount_loading: "loading (mount c b) = loading b"
  by (simp add: mount_def checkUser_start_def perform_def emit_def split: prod.splits)

lemma checkUser_resume_loading: "loading (checkUser_resume outcome b) = False"
  by (simp add: checkUser_resume_def setLoading_def)

lemma callback_loading: "loading (onAuthStateChange_callback s b) = False"
  by (simp add: onAuthStateChange_callback_def setLoading_def)

lemma step_loading: "loading (step c origin a b) = (loading b \<and> \<not> resolves a b)"
proof (cases a)
  case SnapshotSettles
  then show ?thesis
    by (cases "pending b") (simp_all add: checkUser_resume_loading)
qed (simp_all add: signIn_loading signUp_loading signOut_loading checkEmailExists_loading
      mount_loading callback_loading unmount_def emit_def)

lemma loaded_stays_loaded:
  "\<not> loading b \<Longrightarrow>
     rises False (loading_history c origin as b) = 0
     \<and> falls False (loading_history c origin as b) = 0
     \<and> \<not> loading (run c origin as b)"
proof (induction as arbitrary: b)
  case Nil
  then show ?case by simp
next
  case (Cons a as)
  have "\<not> loading (step c origin a b)"
    using Cons.prems by (simp add: step_loading)
  with Cons.IH [of "step c origin a b"] show ?case
    by simp
qed

lemma loading_until_resolved:
  "loading b \<Longrightarrow>
     rises True (loading_history c origin as b) = 0
     \<and> falls True (loading_history c origin as b) = (if resolved c origin as b then 1 else 0)
     \<and> loading (run c origin as b) = (\<not> resolved c origin as b)"
proof (induction as arbitrary: b)
  case Nil
  then show ?case by simp
next
  case (Cons a as)
  show ?case
  proof (cases "resolves a b")
    case True
    then have "\<not> loading (step c origin a b)"
      by (simp add: step_loading)
    with loaded_stays_loaded [of "step c origin a b" c origin as] True show ?thesis
      by simp
  next
    case False
    then have "loading (step c origin a b)"
      using Cons.prems by (simp add: step_loading)
    with Cons.IH [of "step c origin a b"] False show ?thesis
      by simp
  qed
qed

text \<open>
  Claim C3. A provider instance starts with \<^verbatim>\<open>loading\<close> true. Along every sequence of
  actions the flag never goes from false to true; it is still true after the sequence
  exactly when no action of it resolved (a pending snapshot fetch settling, by success or by
  failure, or a subscription event being delivered); and it goes from true to false once
  when some action resolved, and not at all before. Since this holds for every sequence,
  hence for every prefix, the one fall is at the first resolving action.
\<close>

theorem loading_falls_once:
  "loading (initial w)
   \<and> rises (loading (initial w)) (loading_history c origin as (initial w)) = 0
   \<and> falls (loading (initial w)) (loading_history c origin as (initial w))
       = (if resolved c origin as (initial w) then 1 else 0)
   \<and> loading (run c origin as (initial w)) = (\<not> resolved c origin as (initial w))"
proof -
  have l: "loading (initial w)"
    by (simp add: initial_def)
  from loading_until_resolved [OF l, of c origin as] l show ?thesis
    by simp
qed

theorem loading_falls_once_witness:
  "resolved fake_client ''https://app.example''
     [Activate, SubscriptionEvent (Some (Session (Some (User ''1'' ''ana@example.com'')))),
      SnapshotSettles, DoSignOut]
     (initial demo_service)
   \<and> falls True (loading_history fake_client ''https://app.example''
     [Activate, SubscriptionEvent (Some (Session (Some (User ''1'' ''ana@example.com'')))),
      SnapshotSettles, DoSignOut]
     (initial demo_service)) = 1
   \<and> rises True (loading_history fake_client ''https://app.example''
     [Activate, SubscriptionEvent (Some (Session (Some (User ''1'' ''ana@example.com'')))),
      SnapshotSettles, DoSignOut]
     (initial demo_service)) = 0
   \<and> \<not> loading (run fake_client ''https://app.example''
     [Activate, SubscriptionEvent (Some (Session (Some (User ''1'' ''ana@example.com'')))),
      SnapshotSettles, DoSignOut]
     (initial demo_service))"
  (is "resolved ?c ?o ?as ?b \<and> _")
proof -
  have sub: "subscribed (mount ?c ?b)"
    by (simp add: mount_def)
  have r: "resolved ?c ?o ?as ?b"
    by (simp only: resolved.simps resolves.simps step.simps sub simp_thms)
  have l: "loading ?b = True"
    by (simp add: initial_def)
  from loading_falls_once [of demo_service ?c ?o ?as]
  have "rises True (loading_history ?c ?o ?as ?b) = 0
        \<and> falls True (loading_history ?c ?o ?as ?b) = 1
        \<and> \<not> loading (run ?c ?o ?as ?b)"
    by (simp only: l r if_True simp_thms)
  with r show ?thesis
    by (simp only: simp_thms)
qed

end
